theory Spec2Isabelle
  imports Main "HOL-Library.Multiset"
begin

section \<open>Python strings\<close>

text \<open>
  A Python \<open>str\<close> is modelled as a \<open>string\<close>, one \<open>char\<close> per character. The
  character classes below are Python's on the ASCII range (\<open>str.isspace\<close>, the line
  boundaries of \<open>str.splitlines\<close>, \<open>str.lower\<close>, the regular expression classes
  \<open>\s\<close> and \<open>\w\<close>); a character outside ASCII belongs to no class and is its own
  lower case.
\<close>

definition isspace :: "char \<Rightarrow> bool" where
  \<comment> \<open>\<open>str.isspace\<close> and \<open>\s\<close>: TAB, LF, VT, FF, CR, FS, GS, RS, US, SPACE\<close>
  "isspace c = (let n = (of_char c :: nat) in (9 \<le> n \<and> n \<le> 13) \<or> (28 \<le> n \<and> n \<le> 32))"

definition is_linebreak :: "char \<Rightarrow> bool" where
  \<comment> \<open>the line boundaries of \<open>str.splitlines\<close>: LF, VT, FF, CR, FS, GS, RS\<close>
  "is_linebreak c = (let n = (of_char c :: nat) in (10 \<le> n \<and> n \<le> 13) \<or> (28 \<le> n \<and> n \<le> 30))"

definition is_word_char :: "char \<Rightarrow> bool" where
  \<comment> \<open>\<open>\w\<close>: a letter, a digit or the underscore\<close>
  "is_word_char c = (let n = (of_char c :: nat) in
     (48 \<le> n \<and> n \<le> 57) \<or> (65 \<le> n \<and> n \<le> 90) \<or> n = 95 \<or> (97 \<le> n \<and> n \<le> 122))"

definition lower_char :: "char \<Rightarrow> char" where
  "lower_char c = (let n = (of_char c :: nat) in
     if 65 \<le> n \<and> n \<le> 90 then char_of (n + 32) else c)"

definition str_lower :: "string \<Rightarrow> string" where
  "str_lower s = map lower_char s"

definition str_strip :: "string \<Rightarrow> string" where
  "str_strip s = rev (dropWhile isspace (rev (dropWhile isspace s)))"

fun str_startswith :: "string \<Rightarrow> string \<Rightarrow> bool" where
  "str_startswith s [] = True"
| "str_startswith [] (p # ps) = False"
| "str_startswith (c # cs) (p # ps) = (c = p \<and> str_startswith cs ps)"

fun str_contains :: "string \<Rightarrow> string \<Rightarrow> bool" where
  \<comment> \<open>\<open>p in s\<close>\<close>
  "str_contains [] p = (p = [])"
| "str_contains (c # cs) p = (str_startswith (c # cs) p \<or> str_contains cs p)"

fun split_from :: "string \<Rightarrow> string \<Rightarrow> string list" where
  \<comment> \<open>\<open>str.split()\<close> with the word read so far\<close>
  "split_from cur [] = (if cur = [] then [] else [cur])"
| "split_from cur (c # cs) =
     (if isspace c then (if cur = [] then split_from [] cs else cur # split_from [] cs)
      else split_from (cur @ [c]) cs)"

definition str_split :: "string \<Rightarrow> string list" where
  "str_split s = split_from [] s"

fun splitlines_from :: "string \<Rightarrow> string \<Rightarrow> string list" where
  \<comment> \<open>\<open>str.splitlines()\<close> with the line read so far; CR LF is one boundary, and a
      boundary at the very end opens no further line\<close>
  "splitlines_from cur [] = (if cur = [] then [] else [cur])"
| "splitlines_from cur [c] = (if is_linebreak c then [cur] else [cur @ [c]])"
| "splitlines_from cur (c # d # cs) =
     (if c = CHR 0x0D \<and> d = CHR 0x0A then cur # splitlines_from [] cs
      else if is_linebreak c then cur # splitlines_from [] (d # cs)
      else splitlines_from (cur @ [c]) (d # cs))"

definition str_splitlines :: "string \<Rightarrow> string list" where
  "str_splitlines s = splitlines_from [] s"

fun str_join :: "string \<Rightarrow> string list \<Rightarrow> string" where
  "str_join sep [] = []"
| "str_join sep [x] = x"
| "str_join sep (x # y # ys) = x @ sep @ str_join sep (y # ys)"

section \<open>CommitParser\<close>

text \<open>
  \<open>CONVENTIONAL_RE\<close> is
  \<^verbatim>\<open>^(?P<type>feat|fix|docs|style|refactor|perf|test|chore)(\((?P<scope>[^)]+)\))?(!)?:\s*(?P<desc>.+)\<close>
  compiled with \<open>re.I\<close>. Each part of the pattern is a function from the text still to
  be matched to the groups it captures, \<open>None\<close> when the part cannot match; a part
  that can match in several ways tries them in the order of the backtracking matcher.
\<close>

definition conventional_types :: "string list" where
  "conventional_types =
     [''feat'', ''fix'', ''docs'', ''style'', ''refactor'', ''perf'', ''test'', ''chore'']"

fun match_desc_from :: "nat \<Rightarrow> string \<Rightarrow> string option" where
  \<comment> \<open>\<open>\s*(?P<desc>.+)\<close> with \<open>\s*\<close> taking \<open>k\<close> characters: \<open>.+\<close> takes every
      character up to a newline, at least one; otherwise \<open>\s*\<close> gives one back\<close>
  "match_desc_from k r =
     (let d = takeWhile (\<lambda>c. c \<noteq> CHR 0x0A) (drop k r) in
      if d \<noteq> [] then Some d
      else (case k of 0 \<Rightarrow> None | Suc j \<Rightarrow> match_desc_from j r))"

definition match_desc :: "string \<Rightarrow> string option" where
  "match_desc r = match_desc_from (length (takeWhile isspace r)) r"

definition match_colon_desc :: "string \<Rightarrow> string option" where
  \<comment> \<open>\<open>:\s*(?P<desc>.+)\<close>\<close>
  "match_colon_desc s =
     (case s of [] \<Rightarrow> None | c # r \<Rightarrow> if c = CHR '':'' then match_desc r else None)"

definition match_bang_desc :: "string \<Rightarrow> string option" where
  \<comment> \<open>\<open>(!)?:\s*(?P<desc>.+)\<close>: with the mark first, then without\<close>
  "match_bang_desc s =
     (case (case s of [] \<Rightarrow> None
                    | c # r \<Rightarrow> if c = CHR ''!'' then match_colon_desc r else None) of
        Some d \<Rightarrow> Some d
      | None \<Rightarrow> match_colon_desc s)"

definition match_scope :: "string \<Rightarrow> (string \<times> string) option" where
  \<comment> \<open>\<open>\((?P<scope>[^)]+)\)\<close>: the scope and the text after the closing parenthesis\<close>
  "match_scope s =
     (case s of [] \<Rightarrow> None
      | c # r \<Rightarrow>
          if c = CHR ''(''
          then (let sc = takeWhile (\<lambda>x. x \<noteq> CHR '')'') r;
                    r' = dropWhile (\<lambda>x. x \<noteq> CHR '')'') r
                in if sc \<noteq> [] \<and> r' \<noteq> [] then Some (sc, tl r') else None)
          else None)"

definition match_scope_desc :: "string \<Rightarrow> (string option \<times> string) option" where
  \<comment> \<open>\<open>(\((?P<scope>[^)]+)\))?(!)?:\s*(?P<desc>.+)\<close>: with the scope first, then
      without\<close>
  "match_scope_desc s =
     (case (case match_scope s of
              None \<Rightarrow> None
            | Some (sc, r) \<Rightarrow> (case match_bang_desc r of
                                   None \<Rightarrow> None
                                 | Some d \<Rightarrow> Some (Some sc, d))) of
        Some m \<Rightarrow> Some m
      | None \<Rightarrow> (case match_bang_desc s of None \<Rightarrow> None | Some d \<Rightarrow> Some (None, d)))"

fun match_types :: "string list \<Rightarrow> string \<Rightarrow> (string \<times> string option \<times> string) option" where
  \<comment> \<open>the alternatives of \<open>type\<close> in their order, compared without regard to case\<close>
  "match_types [] s = None"
| "match_types (t # ts) s =
     (case (if length t \<le> length s \<and> str_lower (take (length t) s) = t
            then (case match_scope_desc (drop (length t) s) of
                    None \<Rightarrow> None
                  | Some (sc, d) \<Rightarrow> Some (take (length t) s, sc, d))
            else None) of
        Some m \<Rightarrow> Some m
      | None \<Rightarrow> match_types ts s)"

definition conventional_match :: "string \<Rightarrow> (string \<times> string option \<times> string) option" where
  \<comment> \<open>\<open>CONVENTIONAL_RE.match(first)\<close>: the groups \<open>type\<close>, \<open>scope\<close> and \<open>desc\<close>\<close>
  "conventional_match first = match_types conventional_types first"

definition fallback_types :: "string list" where
  "fallback_types = [''feat'', ''fix'', ''docs'', ''refactor'', ''perf'', ''test'', ''style'']"

fun guess_type :: "string list \<Rightarrow> string \<Rightarrow> string" where
  \<comment> \<open>the loop of the heuristic fallback: the first type that applies, else chore\<close>
  "guess_type [] lowered = ''chore''"
| "guess_type (t # ts) lowered =
     (if str_startswith lowered t \<or> str_contains lowered (t @ '':'')
         \<or> t \<in> set (str_split lowered)
      then t else guess_type ts lowered)"

definition parse :: "string \<Rightarrow> string \<times> string option \<times> string \<times> string option" where
  \<comment> \<open>\<open>CommitParser.parse\<close>: (type, scope, short description, body)\<close>
  "parse msg =
     (let lines = str_splitlines msg;
          first = (case lines of [] \<Rightarrow> [] | l # _ \<Rightarrow> l);
          body = (if length lines > 1 then Some (str_strip (str_join [CHR 0x0A] (tl lines)))
                  else None)
      in case conventional_match first of
           Some (ty, scope, d) \<Rightarrow> (str_lower ty, scope, str_strip d, body)
         | None \<Rightarrow> (guess_type fallback_types (str_lower first), None, str_strip first, body))"

section \<open>Grouping commits by type\<close>

record commit_info =
  sha :: string
  author :: "string option"
  date :: int  \<comment> \<open>the commit's \<open>datetime\<close>, as a POSIX time\<close>
  message :: string

text \<open>
  A Python \<open>dict\<close> keeps its keys in the order of their first insertion, and the code
  iterates over it, so a dictionary is an association list in that order.
  \<open>dd_append d k v\<close> is \<open>d[k].append(v)\<close> on a \<open>defaultdict(list)\<close>.
\<close>

fun dd_append :: "('k \<times> 'v list) list \<Rightarrow> 'k \<Rightarrow> 'v \<Rightarrow> ('k \<times> 'v list) list" where
  "dd_append [] k v = [(k, [v])]"
| "dd_append ((k', vs) # d) k v =
     (if k' = k then (k', vs @ [v]) # d else (k', vs) # dd_append d k v)"

definition commit_type :: "commit_info \<Rightarrow> string" where
  "commit_type c = fst (parse (message c))"

definition categorize :: "commit_info list \<Rightarrow> (string \<times> commit_info list) list" where
  \<comment> \<open>\<open>CommitCategorizer.categorize\<close>, and the first loop of both \<open>summarize\<close>\<close>
  "categorize commits = fold (\<lambda>c groups. dd_append groups (commit_type c) c) commits []"

section \<open>The extractive ranker\<close>

text \<open>
  NLTK is not part of the repository: its sentence splitter, its word tokenizer and its
  English stop word list are parameters. The modules run without it (\<open>nltk = None\<close>)
  on whitespace splitting and an empty stop word set.
\<close>

record nltk =
  sent_tokenize :: "string \<Rightarrow> string list"
  word_tokenize :: "string \<Rightarrow> string list"
  stopwords_english :: "string list"

definition re_sub_nonword :: "string \<Rightarrow> string" where
  \<comment> \<open>\<open>re.sub(r"\W+", "", w)\<close>\<close>
  "re_sub_nonword w = filter is_word_char w"

definition tokens_of :: "nltk option \<Rightarrow> string \<Rightarrow> string list" where
  \<comment> \<open>the body of the first loop of \<open>_rank_candidates\<close>: \<open>filtered\<close>\<close>
  "tokens_of nl cand =
     (let words = (case nl of Some n \<Rightarrow> map str_lower (word_tokenize n cand)
                            | None \<Rightarrow> str_split (str_lower cand));
          words' = map re_sub_nonword (filter (\<lambda>w. w \<noteq> [] \<and> re_sub_nonword w \<noteq> []) words);
          stop_words = (case nl of Some n \<Rightarrow> set (stopwords_english n) | None \<Rightarrow> {})
      in filter (\<lambda>w. w \<notin> stop_words) words')"

definition counter_update :: "string list \<Rightarrow> (string \<rightharpoonup> nat) \<Rightarrow> (string \<rightharpoonup> nat)" where
  \<comment> \<open>\<open>Counter.update(words)\<close>\<close>
  "counter_update ws cnt =
     fold (\<lambda>w m. m(w \<mapsto> (case m w of None \<Rightarrow> 1 | Some n \<Rightarrow> n + 1))) ws cnt"

definition counter_get :: "(string \<rightharpoonup> nat) \<Rightarrow> string \<Rightarrow> nat" where
  \<comment> \<open>\<open>word_freq.get(t, 0)\<close>\<close>
  "counter_get cnt t = (case cnt t of None \<Rightarrow> 0 | Some n \<Rightarrow> n)"

definition word_freq :: "nltk option \<Rightarrow> string list \<Rightarrow> (string \<rightharpoonup> nat)" where
  "word_freq nl candidates = fold counter_update (map (tokens_of nl) candidates) Map.empty"

definition cand_score :: "nltk option \<Rightarrow> string list \<Rightarrow> string \<Rightarrow> int" where
  \<comment> \<open>the score of a candidate against the table of the whole candidate list\<close>
  "cand_score nl candidates cand =
     int (sum_list (map (counter_get (word_freq nl candidates)) (tokens_of nl cand)))"

definition cand_scores :: "nltk option \<Rightarrow> string list \<Rightarrow> (string \<times> int) list" where
  \<comment> \<open>\<open>cand_scores\<close> after \<open>sort(key=lambda x: x[1], reverse=True)\<close>, a stable sort\<close>
  "cand_scores nl candidates =
     sort_key (\<lambda>x. - snd x) (map (\<lambda>cand. (cand, cand_score nl candidates cand)) candidates)"

fun dedupe :: "string set \<Rightarrow> string list \<Rightarrow> string list" where
  \<comment> \<open>the last loop of \<open>_rank_candidates\<close>, from the set \<open>seen\<close>\<close>
  "dedupe seen [] = []"
| "dedupe seen (cand # cands) =
     (let key = str_lower cand in
      if key \<notin> seen then cand # dedupe (insert key seen) cands else dedupe seen cands)"

definition rank_candidates :: "nltk option \<Rightarrow> string list \<Rightarrow> string list" where
  "rank_candidates nl candidates =
     (if candidates = [] then [] else dedupe {} (map fst (cand_scores nl candidates)))"

section \<open>CommitSummarizer.summarize\<close>

definition slice_to :: "int \<Rightarrow> 'a list \<Rightarrow> 'a list" where
  \<comment> \<open>\<open>xs[:n]\<close>; a negative \<open>n\<close> counts from the end\<close>
  "slice_to n xs = (if 0 \<le> n then take (nat n) xs else take (length xs - nat (- n)) xs)"

definition first_sentences :: "nltk option \<Rightarrow> string \<Rightarrow> string list" where
  \<comment> \<open>\<open>sent_tokenize(body) if nltk else [body.split("\n")[0]]\<close>\<close>
  "first_sentences nl body =
     (case nl of Some n \<Rightarrow> sent_tokenize n body
               | None \<Rightarrow> [takeWhile (\<lambda>c. c \<noteq> CHR 0x0A) body])"

definition commit_candidates :: "nltk option \<Rightarrow> commit_info \<Rightarrow> string list" where
  \<comment> \<open>what one commit adds to \<open>candidates\<close> in the bullet summarizer\<close>
  "commit_candidates nl c =
     (case parse (message c) of (ty, scope, d, body) \<Rightarrow>
        (if d \<noteq> [] then [d] else []) @
        (case body of
           None \<Rightarrow> []
         | Some b \<Rightarrow> if b \<noteq> [] then take 1 (first_sentences nl b) else []))"

definition summarize :: "nltk option \<Rightarrow> commit_info list \<Rightarrow> int \<Rightarrow> (string \<times> string list) list" where
  \<comment> \<open>\<open>CommitSummarizer.summarize\<close> of \<open>readme_generator.py\<close> (bullet lists)\<close>
  "summarize nl commits top_n_per_type =
     map (\<lambda>(ctype, items).
            (ctype, slice_to top_n_per_type
                      (rank_candidates nl (concat (map (commit_candidates nl) items)))))
         (categorize commits)"

text \<open>
  The narrative summarizer of \<open>readme_generator/summarizer.py\<close>. The paragraph of a
  type with descriptions is composed by \<open>_extract_key_terms\<close> and the builder of the
  type; they are the fields of \<open>paragraphs\<close>.
\<close>

record paragraphs =
  extract_key_terms :: "string list \<Rightarrow> string list"
  summarize_features :: "string list \<Rightarrow> string list \<Rightarrow> string"
  summarize_fixes :: "string list \<Rightarrow> string list \<Rightarrow> string"
  summarize_docs :: "string list \<Rightarrow> string list \<Rightarrow> string"
  summarize_refactor :: "string list \<Rightarrow> string list \<Rightarrow> string"
  summarize_tests :: "string list \<Rightarrow> string list \<Rightarrow> string"
  summarize_performance :: "string list \<Rightarrow> string list \<Rightarrow> string"
  summarize_general :: "string \<Rightarrow> string list \<Rightarrow> string list \<Rightarrow> string"

definition create_detailed_summary ::
  "paragraphs \<Rightarrow> string \<Rightarrow> string list \<Rightarrow> string list \<Rightarrow> string" where
  "create_detailed_summary P ctype descriptions all_text =
     (if descriptions = [] then []
      else (let key_terms = extract_key_terms P all_text in
        if ctype = ''feat'' then summarize_features P descriptions key_terms
        else if ctype = ''fix'' then summarize_fixes P descriptions key_terms
        else if ctype = ''docs'' then summarize_docs P descriptions key_terms
        else if ctype = ''refactor'' then summarize_refactor P descriptions key_terms
        else if ctype = ''test'' then summarize_tests P descriptions key_terms
        else if ctype = ''perf'' then summarize_performance P descriptions key_terms
        else summarize_general P ctype descriptions key_terms))"

definition commit_texts :: "nltk option \<Rightarrow> commit_info \<Rightarrow> string list \<times> string list" where
  \<comment> \<open>what one commit adds to \<open>descriptions\<close> and to \<open>all_text\<close>\<close>
  "commit_texts nl c =
     (case parse (message c) of (ty, scope, d, body) \<Rightarrow>
        (let ds = (if d \<noteq> [] then [str_strip d] else []) in
         (ds, ds @
           (case body of
              None \<Rightarrow> []
            | Some b \<Rightarrow>
                if b \<noteq> []
                then (case first_sentences nl b of
                        [] \<Rightarrow> []
                      | s # _ \<Rightarrow> if length (str_strip s) > 10 then [str_strip s] else [])
                else []))))"

definition summarize_narrative ::
  "nltk option \<Rightarrow> paragraphs \<Rightarrow> commit_info list \<Rightarrow> (string \<times> string) list" where
  \<comment> \<open>\<open>CommitSummarizer.summarize\<close> of \<open>readme_generator/summarizer.py\<close>\<close>
  "summarize_narrative nl P commits =
     concat (map (\<lambda>(ctype, items).
                    if items = [] then []
                    else (let texts = map (commit_texts nl) items;
                              summary = create_detailed_summary P ctype
                                          (concat (map fst texts)) (concat (map snd texts))
                          in if summary \<noteq> [] then [(ctype, summary)] else []))
                 (categorize commits))"

section \<open>The thematic clusterer\<close>

definition theme_table :: "(string \<times> string list) list" where
  \<comment> \<open>the themes of \<open>_extract_themes\<close> and their terms, in the order of the code\<close>
  "theme_table =
     [(''authentication'', [''auth'', ''login'', ''signup'', ''user'', ''security'', ''token'',
                            ''oauth'', ''permission'']),
      (''api'', [''api'', ''endpoint'', ''request'', ''response'', ''server'', ''backend'',
                 ''service'', ''route'']),
      (''ui'', [''ui'', ''interface'', ''component'', ''view'', ''frontend'', ''react'', ''vue'',
                ''angular'', ''css'', ''html'']),
      (''performance'', [''cache'', ''performance'', ''optimization'', ''speed'', ''memory'',
                         ''efficient'', ''fast'']),
      (''data'', [''database'', ''db'', ''sql'', ''query'', ''data'', ''model'', ''schema'',
                  ''migration''])]"

definition theme_matches :: "string list \<Rightarrow> string \<Rightarrow> bool" where
  \<comment> \<open>\<open>any(term in desc_lower for term in terms)\<close>\<close>
  "theme_matches terms d = list_ex (\<lambda>term. str_contains (str_lower d) term) terms"

definition theme_step ::
  "string \<Rightarrow> (string \<times> string list) list \<Rightarrow> (string \<times> string list) list" where
  \<comment> \<open>the body of the loop of \<open>_extract_themes\<close>: one \<open>if\<close> per theme, in order\<close>
  "theme_step d themes =
     fold (\<lambda>(name, terms) th. if theme_matches terms d then dd_append th name d else th)
          theme_table themes"

definition extract_themes :: "string list \<Rightarrow> (string \<times> string list) list" where
  "extract_themes descriptions = fold theme_step descriptions []"

section \<open>categorize\_commits of summarizer.py\<close>

fun is_word_opt :: "char option \<Rightarrow> bool" where
  "is_word_opt None = False"
| "is_word_opt (Some c) = is_word_char c"

definition word_boundary :: "char option \<Rightarrow> char option \<Rightarrow> bool" where
  \<comment> \<open>\<open>\b\<close> between two neighbours, \<open>None\<close> beyond an end of the text\<close>
  "word_boundary prev nxt = (is_word_opt prev \<noteq> is_word_opt nxt)"

definition match_word_at :: "char option \<Rightarrow> string \<Rightarrow> string \<Rightarrow> bool" where
  \<comment> \<open>\<open>\bw\b\<close> matches at the start of \<open>s\<close>, which follows \<open>prev\<close>\<close>
  "match_word_at prev s w =
     (word_boundary prev (case s of [] \<Rightarrow> None | c # _ \<Rightarrow> Some c) \<and>
      str_startswith s w \<and>
      word_boundary (if w = [] then prev else Some (last w))
                    (case drop (length w) s of [] \<Rightarrow> None | c # _ \<Rightarrow> Some c))"

fun search_from :: "char option \<Rightarrow> string list \<Rightarrow> string \<Rightarrow> bool" where
  "search_from prev ws [] = list_ex (match_word_at prev []) ws"
| "search_from prev ws (c # cs) =
     (list_ex (match_word_at prev (c # cs)) ws \<or> search_from (Some c) ws cs)"

definition re_search_words :: "string list \<Rightarrow> string \<Rightarrow> bool" where
  \<comment> \<open>\<open>re.search(r"\b(w1|...|wn)\b", s)\<close> finds a match\<close>
  "re_search_words ws s = search_from None ws s"

definition commit_category :: "string \<Rightarrow> string" where
  \<comment> \<open>the key under which \<open>categorize_commits\<close> files a message\<close>
  "commit_category msg =
     (let lowered = str_strip (str_lower msg) in
      if str_startswith lowered ''feat'' then ''features''
      else if str_startswith lowered ''fix'' then ''fixes''
      else if str_startswith lowered ''docs'' then ''docs''
      else if str_startswith lowered ''refactor'' then ''refactor''
      else if str_startswith lowered ''test'' then ''tests''
      else if re_search_words [''add'', ''implement'', ''introduce'', ''support'', ''feature'']
                lowered then ''features''
      else if re_search_words [''fix'', ''bug'', ''issue'', ''error'', ''crash'', ''resolve'']
                lowered then ''fixes''
      else if re_search_words [''doc'', ''readme'', ''guide'', ''tutorial''] lowered
      then ''docs''
      else if re_search_words [''refactor'', ''restructure'', ''cleanup'', ''format''] lowered
      then ''refactor''
      else if re_search_words [''test'', ''coverage'', ''ci'', ''pipeline''] lowered
      then ''tests''
      else ''other'')"

definition categorize_commits :: "string list \<Rightarrow> (string \<times> string list) list" where
  "categorize_commits commits = fold (\<lambda>msg cats. dd_append cats (commit_category msg) msg) commits []"

section \<open>Notions used in the statements\<close>

definition dd_get :: "('k \<times> 'v list) list \<Rightarrow> 'k \<Rightarrow> 'v list" where
  \<comment> \<open>the list under a key of a \<open>defaultdict(list)\<close>, empty for a missing key\<close>
  "dd_get d k = (case map_of d k of None \<Rightarrow> [] | Some vs \<Rightarrow> vs)"

definition first_occurrences :: "'a list \<Rightarrow> 'a list" where
  \<comment> \<open>the elements of a list in the order of their first occurrence\<close>
  "first_occurrences xs = rev (remdups (rev xs))"

definition themes_of :: "string \<Rightarrow> string list" where
  \<comment> \<open>the themes a description matches, in the order of the table\<close>
  "themes_of d = map fst (filter (\<lambda>(name, terms). theme_matches terms d) theme_table)"

definition theme_pairs :: "(string \<times> string list) list \<Rightarrow> string \<Rightarrow> (string \<times> string) list" where
  \<comment> \<open>the appends one description causes: (theme, description), in the order of the table\<close>
  "theme_pairs tbl d =
     map (\<lambda>(name, terms). (name, d)) (filter (\<lambda>(name, terms). theme_matches terms d) tbl)"








definition keyword_applies :: "string \<Rightarrow> string \<Rightarrow> bool" where
  \<comment> \<open>the test of the fallback loop: a prefix, followed by a colon somewhere, or a word
      between whitespace\<close>
  "keyword_applies lowered t =
     (str_startswith lowered t \<or> str_contains lowered (t @ '':'') \<or> t \<in> set (str_split lowered))"





section \<open>Prefixes and substrings\<close>

lemma str_startswith_iff: "str_startswith s p = (\<exists>r. s = p @ r)"
  by (induction s p rule: str_startswith.induct) auto

lemma str_contains_iff: "str_contains s p = (\<exists>a b. s = a @ p @ b)"
proof (induction s)
  case Nil
  show ?case by auto
next
  case (Cons c s)
  have "(\<exists>a b. c # s = a @ p @ b) = ((\<exists>r. c # s = p @ r) \<or> (\<exists>a b. s = a @ p @ b))"
  proof
    assume "\<exists>a b. c # s = a @ p @ b"
    then obtain a b where ab: "c # s = a @ p @ b" by blast
    show "(\<exists>r. c # s = p @ r) \<or> (\<exists>a b. s = a @ p @ b)"
    proof (cases a)
      case Nil
      with ab show ?thesis by auto
    next
      case (Cons x a')
      with ab have "s = a' @ p @ b" by simp
      then show ?thesis by blast
    qed
  next
    assume "(\<exists>r. c # s = p @ r) \<or> (\<exists>a b. s = a @ p @ b)"
    then show "\<exists>a b. c # s = a @ p @ b"
    proof
      assume "\<exists>r. c # s = p @ r"
      then obtain r where "c # s = [] @ p @ r" by auto
      then show ?thesis by blast
    next
      assume "\<exists>a b. s = a @ p @ b"
      then obtain a b where "c # s = (c # a) @ p @ b" by auto
      then show ?thesis by blast
    qed
  qed
  then show ?case
    by (simp add: Cons.IH str_startswith_iff del: str_startswith.simps)
qed

section \<open>Dictionaries of lists\<close>

lemma dd_append_keys:
  "map fst (dd_append d k v) = (if k \<in> set (map fst d) then map fst d else map fst d @ [k])"
  by (induction d k v rule: dd_append.induct) auto

lemma dd_append_lengths:
  "sum_list (map (\<lambda>g. length (snd g)) (dd_append d k v)) =
     Suc (sum_list (map (\<lambda>g. length (snd g)) d))"
  by (induction d k v rule: dd_append.induct) auto

lemma dd_append_map_of:
  "map_of (dd_append d k v) k' = (if k' = k then Some (dd_get d k @ [v]) else map_of d k')"
  by (induction d k v rule: dd_append.induct) (auto simp: dd_get_def)

lemma dd_append_distinct:
  "distinct (map fst d) \<Longrightarrow> distinct (map fst (dd_append d k v))"
  by (simp add: dd_append_keys)

text \<open>
  Filing every element \<open>x\<close> of a list under the key \<open>kf x\<close> with the value \<open>vf x\<close>:
  the loop shared by the groupings and by the clusterer.
\<close>

lemma group_fold_lengths:
  "sum_list (map (\<lambda>g. length (snd g)) (fold (\<lambda>x g. dd_append g (kf x) (vf x)) xs d))
     = length xs + sum_list (map (\<lambda>g. length (snd g)) d)"
  by (induction xs arbitrary: d) (auto simp: dd_append_lengths)

lemma group_fold_distinct:
  "distinct (map fst d) \<Longrightarrow>
   distinct (map fst (fold (\<lambda>x g. dd_append g (kf x) (vf x)) xs d))"
  by (induction xs arbitrary: d) (auto simp: dd_append_distinct)

lemma group_fold_map_of:
  "map_of (fold (\<lambda>x g. dd_append g (kf x) (vf x)) xs d) k =
     (if k \<in> kf ` set xs then Some (dd_get d k @ map vf (filter (\<lambda>x. kf x = k) xs))
      else map_of d k)"
proof (induction xs arbitrary: d)
  case Nil
  then show ?case by simp
next
  case (Cons x xs)
  have none: "kf x \<notin> kf ` set xs \<Longrightarrow> filter (\<lambda>c. kf c = kf x) xs = []"
    by (induction xs) auto
  show ?case
    by (auto simp: Cons.IH dd_append_map_of dd_get_def none)
qed

lemma remdups_app:
  "remdups (as @ bs) = remdups (filter (\<lambda>x. x \<notin> set bs) as) @ remdups bs"
  by (induction as) auto

lemma first_occurrences_absorb:
  assumes k: "k \<in> set xs"
  shows "first_occurrences (xs @ k # ys) = first_occurrences (xs @ ys)"
proof -
  have "remdups (rev ys @ k # rev xs) =
          remdups (filter (\<lambda>x. x \<notin> set (k # rev xs)) (rev ys)) @ remdups (k # rev xs)"
    by (rule remdups_app)
  also have "\<dots> = remdups (filter (\<lambda>x. x \<notin> set (rev xs)) (rev ys)) @ remdups (rev xs)"
    using k by (simp add: insert_absorb)
  also have "\<dots> = remdups (rev ys @ rev xs)"
    by (rule remdups_app[symmetric])
  finally show ?thesis by (simp add: first_occurrences_def)
qed

lemma first_occurrences_distinct: "distinct xs \<Longrightarrow> first_occurrences xs = xs"
  by (simp add: first_occurrences_def distinct_remdups_id)

lemma group_fold_keys:
  "distinct (map fst d) \<Longrightarrow>
   map fst (fold (\<lambda>x g. dd_append g (kf x) (vf x)) xs d) =
     first_occurrences (map fst d @ map kf xs)"
proof (induction xs arbitrary: d)
  case Nil
  then show ?case by (simp add: first_occurrences_distinct)
next
  case (Cons x xs)
  let ?d = "dd_append d (kf x) (vf x)"
  have "map fst (fold (\<lambda>x g. dd_append g (kf x) (vf x)) xs ?d) =
          first_occurrences (map fst ?d @ map kf xs)"
    using Cons.prems by (intro Cons.IH dd_append_distinct)
  also have "\<dots> = first_occurrences (map fst d @ kf x # map kf xs)"
    by (auto simp: dd_append_keys first_occurrences_absorb)
  finally show ?case by simp
qed


section \<open>Grouping\<close>

lemma categorize_map_of:
  "map_of (categorize L) k =
     (if k \<in> commit_type ` set L then Some (filter (\<lambda>c. commit_type c = k) L) else None)"
  unfolding categorize_def
  by (simp add: group_fold_map_of[where vf="\<lambda>c. c", simplified] dd_get_def)

lemma categorize_distinct: "distinct (map fst (categorize L))"
  unfolding categorize_def by (simp add: group_fold_distinct)

text \<open>
  C6. Grouping by type puts every commit of the list in exactly one group: the keys are
  pairwise different, the group under a key holds the commits of that type, in the order
  of the list, a type no commit has is no key, and the lengths of the groups add up to
  the length of the list.
\<close>

theorem categorize_complete:
  "sum_list (map (\<lambda>g. length (snd g)) (categorize L)) = length L
   \<and> distinct (map fst (categorize L))
   \<and> (\<forall>k. map_of (categorize L) k =
           (if k \<in> commit_type ` set L then Some (filter (\<lambda>c. commit_type c = k) L)
            else None))"
proof (intro conjI allI)
  show "sum_list (map (\<lambda>g. length (snd g)) (categorize L)) = length L"
    unfolding categorize_def by (simp add: group_fold_lengths)
  show "distinct (map fst (categorize L))"
    by (rule categorize_distinct)
  show "map_of (categorize L) k =
           (if k \<in> commit_type ` set L then Some (filter (\<lambda>c. commit_type c = k) L)
            else None)" for k
    by (rule categorize_map_of)
qed

section \<open>Empty input\<close>

text \<open>
  C9. On empty input the ranker returns the empty list, the clusterer the empty
  dictionary, and both summarizers the empty dictionary; none of them raises.
\<close>

theorem empty_input:
  "rank_candidates nl [] = [] \<and> extract_themes [] = [] \<and> summarize nl [] n = []
   \<and> summarize_narrative nl P [] = []"
  by (simp add: rank_candidates_def extract_themes_def summarize_def summarize_narrative_def
      categorize_def)

section \<open>The two classifiers\<close>

text \<open>
  C4. \<open>CommitParser.parse\<close> and \<open>categorize_commits\<close> disagree on a message: the
  first classifies \<open>bug fix for feature x\<close> as a fix, the second files it under
  features.
\<close>

theorem classifiers_disagree:
  "\<exists>m. fst (parse m) = ''fix'' \<and> categorize_commits [m] = [(''features'', [m])]"
proof (intro exI conjI)
  show "fst (parse ''bug fix for feature x'') = ''fix''"
    by code_simp
  show "categorize_commits [''bug fix for feature x''] =
          [(''features'', [''bug fix for feature x''])]"
    by code_simp
qed

section \<open>The thematic clusterer: order and contents\<close>

lemma theme_fold_pairs:
  "fold (\<lambda>(name, terms) th. if theme_matches terms d then dd_append th name d else th) tbl th =
     fold (\<lambda>p g. dd_append g (fst p) (snd p)) (theme_pairs tbl d) th"
  by (induction tbl arbitrary: th) (auto simp: theme_pairs_def)

lemma extract_themes_pairs:
  "fold theme_step ds th =
     fold (\<lambda>p g. dd_append g (fst p) (snd p)) (concat (map (theme_pairs theme_table) ds)) th"
  by (induction ds arbitrary: th) (auto simp: theme_step_def theme_fold_pairs)

lemma theme_pairs_absent:
  "name \<notin> fst ` set tbl \<Longrightarrow> filter (\<lambda>p. fst p = name) (theme_pairs tbl d) = []"
  by (induction tbl) (auto simp: theme_pairs_def)

lemma theme_pairs_lookup:
  "distinct (map fst tbl) \<Longrightarrow>
   map snd (filter (\<lambda>p. fst p = name) (theme_pairs tbl d)) =
     (case map_of tbl name of
        None \<Rightarrow> []
      | Some terms \<Rightarrow> if theme_matches terms d then [d] else [])"
proof (induction tbl)
  case Nil
  show ?case by (simp add: theme_pairs_def)
next
  case (Cons e tbl)
  obtain n t where e: "e = (n, t)" by (cases e)
  have split: "theme_pairs ((n, t) # tbl) d =
      (if theme_matches t d then [(n, d)] else []) @ theme_pairs tbl d"
    by (simp add: theme_pairs_def)
  show ?case
  proof (cases "n = name")
    case True
    with Cons.prems e have "name \<notin> fst ` set tbl" by auto
    then have "filter (\<lambda>p. fst p = name) (theme_pairs tbl d) = []"
      by (rule theme_pairs_absent)
    then show ?thesis unfolding e split by (simp add: True)
  next
    case False
    with Cons show ?thesis unfolding e split by simp
  qed
qed

lemma theme_pairs_all:
  "distinct (map fst tbl) \<Longrightarrow>
   map snd (filter (\<lambda>p. fst p = name) (concat (map (theme_pairs tbl) ds))) =
     (case map_of tbl name of
        None \<Rightarrow> []
      | Some terms \<Rightarrow> filter (theme_matches terms) ds)"
  by (induction ds) (auto simp: theme_pairs_lookup split: option.splits)

lemma key_present:
  "(k \<in> fst ` set xs) = (map snd (filter (\<lambda>p. fst p = k) xs) \<noteq> [])"
  by (induction xs) auto

lemma theme_table_distinct: "distinct (map fst theme_table)"
  by (simp add: theme_table_def)

lemma themes_of_pairs: "map fst (theme_pairs theme_table d) = themes_of d"
  by (simp add: theme_pairs_def themes_of_def comp_def case_prod_beta)

text \<open>
  C3. The keys of the dictionary returned by the clusterer are the matched themes in the
  order in which they are first matched: by the earliest description that matches, and
  among the themes first matched by one description in the order of the table. Under a
  theme stand exactly the descriptions that match one of its terms, in input order; a
  description is under every theme it matches, and a theme nothing matches is no key.
\<close>

theorem extract_themes_order:
  "map fst (extract_themes ds) = first_occurrences (concat (map themes_of ds))
   \<and> (\<forall>name. map_of (extract_themes ds) name =
         (case map_of theme_table name of
            None \<Rightarrow> None
          | Some terms \<Rightarrow> if filter (theme_matches terms) ds = [] then None
                          else Some (filter (theme_matches terms) ds)))
   \<and> distinct (map fst (extract_themes ds))"
proof (intro conjI allI)
  let ?ps = "concat (map (theme_pairs theme_table) ds)"
  have ex: "extract_themes ds = fold (\<lambda>p g. dd_append g (fst p) (snd p)) ?ps []"
    by (simp add: extract_themes_def extract_themes_pairs)
  show "distinct (map fst (extract_themes ds))"
    unfolding ex by (rule group_fold_distinct) simp
  have "map fst ?ps = concat (map themes_of ds)"
    by (simp add: map_concat comp_def themes_of_pairs)
  then show "map fst (extract_themes ds) = first_occurrences (concat (map themes_of ds))"
    unfolding ex using group_fold_keys[of "[]" fst snd ?ps] by simp
  fix name
  show "map_of (extract_themes ds) name =
         (case map_of theme_table name of
            None \<Rightarrow> None
          | Some terms \<Rightarrow> if filter (theme_matches terms) ds = [] then None
                          else Some (filter (theme_matches terms) ds))"
    unfolding ex group_fold_map_of key_present theme_pairs_all[OF theme_table_distinct]
    by (simp add: dd_get_def split: option.splits)
qed

text \<open>
  The keys are not in the order of the table: \<open>api\<close> is matched before
  \<open>authentication\<close> on the descriptions \<open>api\<close>, \<open>login\<close>.
\<close>

theorem themes_not_in_table_order:
  "map fst (extract_themes [''api'', ''login'']) = [''api'', ''authentication'']
   \<and> map fst theme_table = [''authentication'', ''api'', ''ui'', ''performance'', ''data'']
   \<and> map fst (extract_themes [''api'', ''login'']) \<noteq>
       filter (\<lambda>name. name \<in> set (map fst (extract_themes [''api'', ''login''])))
         (map fst theme_table)"
  by code_simp

section \<open>The extractive ranker: order, ties, repeats\<close>























section \<open>The conventional pattern\<close>





























lemma keyword_applies_iff:
  "keyword_applies lowered t =
     ((\<exists>r. lowered = t @ r) \<or> (\<exists>a b. lowered = a @ t @ '':'' @ b)
      \<or> t \<in> set (str_split lowered))"
  by (simp add: keyword_applies_def str_startswith_iff str_contains_iff)










section \<open>Blank messages\<close>















end
